theory Spec2Isabelle
  imports Main
begin

section \<open>Python strings\<close>

text \<open>
  A Python \<open>str\<close> is modelled as a \<open>string\<close>; one \<open>char\<close> stands for one code point
  in the range 0..255.  The character classes below are the ones CPython uses for
  \<open>str\<close> patterns and \<open>str.strip()\<close>, restricted to that range.
\<close>

datatype error = IndexError | ValueError | AttributeError

definition ord :: "char \<Rightarrow> nat" where
  "ord c = of_char c"

definition isspace :: "char \<Rightarrow> bool" where
  \<comment> \<open>\<open>str.isspace\<close>, which is also the regex class \<open>\s\<close>\<close>
  "isspace c = ((9 \<le> ord c \<and> ord c \<le> 13) \<or> (28 \<le> ord c \<and> ord c \<le> 32)
                 \<or> ord c = 133 \<or> ord c = 160)"

definition isdecimal :: "char \<Rightarrow> bool" where
  \<comment> \<open>the regex class \<open>\d\<close>\<close>
  "isdecimal c = (48 \<le> ord c \<and> ord c \<le> 57)"

definition ascii_letter :: "char \<Rightarrow> bool" where
  \<comment> \<open>the regex class \<open>[a-zA-Z]\<close>\<close>
  "ascii_letter c = ((65 \<le> ord c \<and> ord c \<le> 90) \<or> (97 \<le> ord c \<and> ord c \<le> 122))"

definition isalnum :: "char \<Rightarrow> bool" where
  \<comment> \<open>\<open>str.isalnum\<close>: alphabetic, decimal, digit or numeric\<close>
  "isalnum c = (ascii_letter c \<or> isdecimal c
                 \<or> ord c = 170 \<or> ord c = 181 \<or> ord c = 186
                 \<or> (192 \<le> ord c \<and> ord c \<le> 214) \<or> (216 \<le> ord c \<and> ord c \<le> 246)
                 \<or> (248 \<le> ord c \<and> ord c \<le> 255)
                 \<or> ord c = 178 \<or> ord c = 179 \<or> ord c = 185
                 \<or> (188 \<le> ord c \<and> ord c \<le> 190))"

definition word_char :: "char \<Rightarrow> bool" where
  \<comment> \<open>the regex class \<open>\w\<close>; \<open>\W\<close> is its complement\<close>
  "word_char c = (isalnum c \<or> c = CHR ''_'')"

fun starts_with :: "string \<Rightarrow> string \<Rightarrow> bool" where
  "starts_with s [] = True"
| "starts_with [] (p # ps) = False"
| "starts_with (c # cs) (p # ps) = (c = p \<and> starts_with cs ps)"

text \<open>
  \<open>s.split(sep)\<close>: the occurrences of \<open>sep\<close> are found from the left and do not
  overlap.  Python raises \<open>ValueError\<close> for an empty separator; every call in the program
  passes a non-empty literal, and the model returns the string unsplit there.
\<close>

fun str_split :: "string \<Rightarrow> string \<Rightarrow> string list" where
  "str_split sep [] = [[]]"
| "str_split sep (c # cs) =
     (if sep \<noteq> [] \<and> starts_with (c # cs) sep
      then [] # str_split sep (drop (length sep) (c # cs))
      else (case str_split sep cs of
              [] \<Rightarrow> [[c]]
            | b # bs \<Rightarrow> (c # b) # bs))"

text \<open>\<open>s.count(sep)\<close>: the number of non-overlapping occurrences, found from the left.\<close>

fun str_count :: "string \<Rightarrow> string \<Rightarrow> nat" where
  "str_count sep [] = 0"
| "str_count sep (c # cs) =
     (if sep \<noteq> [] \<and> starts_with (c # cs) sep
      then Suc (str_count sep (drop (length sep) (c # cs)))
      else str_count sep cs)"

text \<open>\<open>s.replace(old, new)\<close> for a non-empty \<open>old\<close>.\<close>

fun str_replace :: "string \<Rightarrow> string \<Rightarrow> string \<Rightarrow> string" where
  "str_replace old new [] = []"
| "str_replace old new (c # cs) =
     (if old \<noteq> [] \<and> starts_with (c # cs) old
      then new @ str_replace old new (drop (length old) (c # cs))
      else c # str_replace old new cs)"

fun str_join :: "string \<Rightarrow> string list \<Rightarrow> string" where
  "str_join sep [] = []"
| "str_join sep [x] = x"
| "str_join sep (x # y # ys) = x @ sep @ str_join sep (y # ys)"

definition str_strip :: "string \<Rightarrow> string" where
  "str_strip s = rev (dropWhile isspace (rev (dropWhile isspace s)))"

section \<open>Book.tidy_title\<close>

definition title_char :: "char \<Rightarrow> bool" where
  \<comment> \<open>the characters outside the negated class \<open>[^a-zA-Z\d\s;,_\-\.()'\"]\<close>\<close>
  "title_char c = (ascii_letter c \<or> isdecimal c \<or> isspace c
                    \<or> c \<in> set [CHR '';'', CHR '','', CHR ''_'', CHR ''-'', CHR ''.'',
                                CHR ''('', CHR '')'', CHR 0x27, CHR 0x22])"

text \<open>
  The first substitution deletes every maximal run of characters of the negated class,
  which leaves the characters of \<open>title_char\<close> in order.  The second deletes the matches
  of \<open>^\W+|\W+$\<close>: the run of non-word characters at the start and the run at the end.
\<close>

definition tidy_title :: "string \<Rightarrow> string" where
  "tidy_title raw_title =
     (let title = filter title_char raw_title;
          title = rev (dropWhile (\<lambda>c. \<not> word_char c) (rev (dropWhile (\<lambda>c. \<not> word_char c) title)))
      in title)"

section \<open>The author parenthetical\<close>

text \<open>
  \<open>re.search(r"\(([^)]*)\)[^(]*$", book_details)\<close>.  A match starts at an opening
  bracket; the group runs to the next closing bracket (the class \<open>[^)]\<close> cannot pass one),
  and the rest of the line must be free of opening brackets for \<open>[^(]*$\<close> to reach the end.
  The search returns the leftmost start that matches, as the start index and group 1.
\<close>

fun re_search_author :: "nat \<Rightarrow> string \<Rightarrow> (nat \<times> string) option" where
  "re_search_author i [] = None"
| "re_search_author i (c # cs) =
     (if c = CHR ''(''
      then (let group1 = takeWhile (\<lambda>x. x \<noteq> CHR '')'') cs;
                rest = dropWhile (\<lambda>x. x \<noteq> CHR '')'') cs
            in if rest \<noteq> [] \<and> CHR ''('' \<notin> set (tl rest)
               then Some (i, group1)
               else re_search_author (Suc i) cs)
      else re_search_author (Suc i) cs)"

section \<open>Sequencing of calls that may raise\<close>

definition and_then :: "error + 'a \<Rightarrow> ('a \<Rightarrow> error + 'b) \<Rightarrow> error + 'b" where
  "and_then m f = (case m of Inl e \<Rightarrow> Inl e | Inr x \<Rightarrow> f x)"

definition getitem :: "'a list \<Rightarrow> nat \<Rightarrow> error + 'a" where
  \<comment> \<open>\<open>xs[i]\<close> for a non-negative index\<close>
  "getitem xs i = (if i < length xs then Inr (xs ! i) else Inl IndexError)"

section \<open>datetime.strptime and strftime\<close>

text \<open>
  \<open>strptime\<close> turns the format \<open>'%A, %B %d, %Y %H:%M:%S %p'\<close> into one regular expression
  (each directive a group, each run of blanks \<open>\s+\<close>, matched ignoring case) and matches it
  at the start of the string.  A matcher returns its matches in the order the regex engine
  tries them, so the head of the list is the match the engine reports.
\<close>

type_synonym 'a matcher = "string \<Rightarrow> ('a \<times> string) list"

definition m_then :: "'a matcher \<Rightarrow> ('a \<Rightarrow> 'b matcher) \<Rightarrow> 'b matcher" where
  "m_then m f s = concat (map (\<lambda>(a, r). f a r) (m s))"

definition m_return :: "'a \<Rightarrow> 'a matcher" where
  "m_return a s = [(a, s)]"

definition lower :: "char \<Rightarrow> char" where
  "lower c = (if 65 \<le> ord c \<and> ord c \<le> 90 then char_of (ord c + 32) else c)"

definition m_lit :: "char \<Rightarrow> unit matcher" where
  "m_lit c s = (case s of [] \<Rightarrow> [] | x # xs \<Rightarrow> if x = c then [((), xs)] else [])"

definition m_space :: "unit matcher" where
  \<comment> \<open>\<open>\s+\<close>, greedy: the longest run first\<close>
  "m_space s = map (\<lambda>k. ((), drop k s)) (rev [1 ..< Suc (length (takeWhile isspace s))])"

definition m_names :: "(string \<times> nat) list \<Rightarrow> nat matcher" where
  \<comment> \<open>an alternation of names, each with the index the directive stands for\<close>
  "m_names names s =
     concat (map (\<lambda>(name, v). if starts_with (map lower s) name
                                then [(v, drop (length name) s)] else []) names)"

fun m_alt :: "(char \<Rightarrow> bool) list \<Rightarrow> string \<Rightarrow> bool" where
  "m_alt [] s = True"
| "m_alt (p # ps) [] = False"
| "m_alt (p # ps) (c # cs) = (p c \<and> m_alt ps cs)"

definition int_of_str :: "string \<Rightarrow> nat" where
  \<comment> \<open>\<open>int(s)\<close> on the text of a numeric group (decimal digits, perhaps after a blank)\<close>
  "int_of_str s = foldl (\<lambda>n c. 10 * n + (ord c - 48)) 0 (filter isdecimal s)"

definition m_alts :: "(char \<Rightarrow> bool) list list \<Rightarrow> nat matcher" where
  \<comment> \<open>an alternation of fixed-length sequences of character classes\<close>
  "m_alts alts s =
     concat (map (\<lambda>a. if m_alt a s
                        then [(int_of_str (take (length a) s), drop (length a) s)] else []) alts)"

definition just :: "char \<Rightarrow> char \<Rightarrow> bool" where
  "just a c = (c = a)"

definition between :: "char \<Rightarrow> char \<Rightarrow> char \<Rightarrow> bool" where
  "between a b c = (ord a \<le> ord c \<and> ord c \<le> ord b)"

definition weekday_names :: "(string \<times> nat) list" where
  "weekday_names = [(''wednesday'', 2), (''thursday'', 3), (''saturday'', 5), (''tuesday'', 1),
                    (''monday'', 0), (''friday'', 4), (''sunday'', 6)]"

definition month_names :: "(string \<times> nat) list" where
  "month_names = [(''september'', 9), (''february'', 2), (''november'', 11), (''december'', 12),
                  (''january'', 1), (''october'', 10), (''august'', 8), (''march'', 3),
                  (''april'', 4), (''june'', 6), (''july'', 7), (''may'', 5)]"

definition am_pm :: "(string \<times> nat) list" where
  "am_pm = [(''am'', 0), (''pm'', 1)]"

definition directive_d :: "nat matcher" where
  \<comment> \<open>\<open>3[0-1]|[1-2]\d|0[1-9]|[1-9]| [1-9]\<close>\<close>
  "directive_d = m_alts [[just CHR ''3'', between CHR ''0'' CHR ''1''],
                         [between CHR ''1'' CHR ''2'', isdecimal],
                         [just CHR ''0'', between CHR ''1'' CHR ''9''],
                         [between CHR ''1'' CHR ''9''],
                         [just CHR '' '', between CHR ''1'' CHR ''9'']]"

definition directive_Y :: "nat matcher" where
  \<comment> \<open>\<open>\d\d\d\d\<close>\<close>
  "directive_Y = m_alts [[isdecimal, isdecimal, isdecimal, isdecimal]]"

definition directive_H :: "nat matcher" where
  \<comment> \<open>\<open>2[0-3]|[0-1]\d|\d\<close>\<close>
  "directive_H = m_alts [[just CHR ''2'', between CHR ''0'' CHR ''3''],
                         [between CHR ''0'' CHR ''1'', isdecimal],
                         [isdecimal]]"

definition directive_M :: "nat matcher" where
  \<comment> \<open>\<open>[0-5]\d|\d\<close>\<close>
  "directive_M = m_alts [[between CHR ''0'' CHR ''5'', isdecimal], [isdecimal]]"

definition directive_S :: "nat matcher" where
  \<comment> \<open>\<open>6[0-1]|[0-5]\d|\d\<close>\<close>
  "directive_S = m_alts [[just CHR ''6'', between CHR ''0'' CHR ''1''],
                         [between CHR ''0'' CHR ''5'', isdecimal],
                         [isdecimal]]"

record datetime =
  year :: nat
  month :: nat
  day :: nat
  hour :: nat
  minute :: nat
  second :: nat

definition format_regex :: "(nat \<times> datetime \<times> nat) matcher" where
  \<comment> \<open>the groups found: weekday, the date and time fields, and the AM/PM index\<close>
  "format_regex =
     m_then (m_names weekday_names) (\<lambda>A.
     m_then (m_lit CHR '','') (\<lambda>_.
     m_then m_space (\<lambda>_.
     m_then (m_names month_names) (\<lambda>B.
     m_then m_space (\<lambda>_.
     m_then directive_d (\<lambda>d.
     m_then (m_lit CHR '','') (\<lambda>_.
     m_then m_space (\<lambda>_.
     m_then directive_Y (\<lambda>Y.
     m_then m_space (\<lambda>_.
     m_then directive_H (\<lambda>H.
     m_then (m_lit CHR '':'') (\<lambda>_.
     m_then directive_M (\<lambda>M.
     m_then (m_lit CHR '':'') (\<lambda>_.
     m_then directive_S (\<lambda>S.
     m_then m_space (\<lambda>_.
     m_then (m_names am_pm) (\<lambda>p.
     m_return (A, \<lparr>year = Y, month = B, day = d, hour = H, minute = M, second = S\<rparr>, p)
     )))))))))))))))))"

definition is_leap :: "nat \<Rightarrow> bool" where
  "is_leap y = (y mod 4 = 0 \<and> (y mod 100 \<noteq> 0 \<or> y mod 400 = 0))"

definition days_in_month :: "nat \<Rightarrow> nat \<Rightarrow> nat" where
  "days_in_month y m =
     (if m = 2 then (if is_leap y then 29 else 28)
      else if m = 4 \<or> m = 6 \<or> m = 9 \<or> m = 11 then 30 else 31)"

text \<open>
  The whole string must be consumed by the match the engine reports, and the fields must
  form a date (\<open>ValueError\<close> otherwise).  The hour is the value of the \<open>%H\<close> group:
  \<open>strptime\<close> lets the \<open>%p\<close> group change the hour only when the hour was read by \<open>%I\<close>,
  so with this format the AM/PM marker is matched and then unused, as the weekday is.
\<close>

definition strptime :: "string \<Rightarrow> error + datetime" where
  "strptime data_string =
     (case format_regex data_string of
        [] \<Rightarrow> Inl ValueError
      | ((A, dt, p), rest) # _ \<Rightarrow>
          if rest \<noteq> [] then Inl ValueError
          else if year dt < 1 \<or> day dt > days_in_month (year dt) (month dt) \<or> second dt > 59
          then Inl ValueError
          else Inr dt)"

definition pad2 :: "nat \<Rightarrow> string" where
  "pad2 n = [''0123456789'' ! ((n div 10) mod 10), ''0123456789'' ! (n mod 10)]"

definition strftime :: "datetime \<Rightarrow> string" where
  \<comment> \<open>\<open>OUTPUT_DATE_FORMAT = "%d/%m/%y %H:%M:%S"\<close>\<close>
  "strftime dt = pad2 (day dt) @ ''/'' @ pad2 (month dt) @ ''/'' @ pad2 (year dt mod 100)
                 @ '' '' @ pad2 (hour dt) @ '':'' @ pad2 (minute dt) @ '':'' @ pad2 (second dt)"

section \<open>Highlight\<close>

definition tidy_date :: "string \<Rightarrow> error + string" where
  "tidy_date raw_date =
     (let date_str = str_replace ''Added on '' [] raw_date
      in and_then (strptime date_str) (\<lambda>datetime_object. Inr (strftime datetime_object)))"

definition get_type_and_location :: "string \<Rightarrow> error + (string \<times> string)" where
  "get_type_and_location loc_str =
     (let loc_str = str_strip (str_replace ''- Your '' [] loc_str);
          type_and_location = str_split '' on '' loc_str
      in and_then (getitem type_and_location 0) (\<lambda>highlight_type.
         and_then (getitem type_and_location 1) (\<lambda>remainder.
         let page_and_location = str_split '' | '' remainder
         in and_then (if length page_and_location = 1
                      then getitem page_and_location 0
                      else getitem page_and_location 1) (\<lambda>highlight_location.
            Inr (str_strip highlight_type, str_strip highlight_location)))))"

type_synonym fields =
  "string option \<times> string option \<times> string option \<times> string option \<times> string option \<times> string option"

definition empty_set :: fields where
  "empty_set = (None, None, None, None, None, None)"

definition parse_highlight :: "string \<Rightarrow> error + fields" where
  "parse_highlight raw_highlight_str =
     (let split_str = str_split ''\<newline>'' raw_highlight_str
      in if length split_str < 5 then Inr empty_set
         else
           and_then (getitem split_str 0) (\<lambda>first.
           let split_str = (if first = [] then drop 1 split_str else split_str)
           in and_then (getitem split_str 0) (\<lambda>book_details.
              case re_search_author 0 book_details of
                None \<Rightarrow> Inr empty_set
              | Some (start, group1) \<Rightarrow>
                  let title = tidy_title (take start book_details);
                      author = group1
                  in and_then (getitem split_str 1) (\<lambda>highlight_details.
                     let highlight_details_split = str_split '' | Added on '' highlight_details
                     in if highlight_details_split \<noteq> []
                        then
                          and_then (getitem highlight_details_split 0) (\<lambda>descriptor.
                          and_then (get_type_and_location descriptor) (\<lambda>type_and_location.
                          let highlight_type = fst type_and_location;
                              main_loc = snd type_and_location
                          in and_then (getitem highlight_details_split 1) (\<lambda>date.
                             and_then (tidy_date date) (\<lambda>date.
                             let content = str_join ''\<newline>'' (butlast (drop 3 split_str))
                             in Inr (Some (str_strip title), Some (str_strip author),
                                     Some (str_strip highlight_type), Some (str_strip main_loc),
                                     Some date, Some (str_strip content))))))
                        else Inr empty_set))))"

text \<open>
  The lines \<open>parse_highlight\<close> reads the fields from, once the block has passed the
  length check: the split block without its first line when that line is empty.  Used to
  state properties only.
\<close>

definition block_lines :: "string \<Rightarrow> string list" where
  "block_lines raw_highlight_str =
     (let split_str = str_split ''\<newline>'' raw_highlight_str
      in if hd split_str = [] then drop 1 split_str else split_str)"

text \<open>\<open>Highlight.__init__\<close>: the six fields are what \<open>parse_highlight\<close> returns.\<close>

record Highlight =
  title :: "string option"
  author :: "string option"
  highlight_type :: "string option"
  main_loc :: "string option"
  date :: "string option"
  content :: "string option"

definition Highlight_init :: "string \<Rightarrow> error + Highlight" where
  "Highlight_init raw_highlight_str =
     and_then (parse_highlight raw_highlight_str) (\<lambda>(t, a, k, l, d, c).
       Inr \<lparr>title = t, author = a, highlight_type = k, main_loc = l, date = d, content = c\<rparr>)"

text \<open>
  \<open>to_hash\<close>: \<open>hashlib.sha1(self.content.encode('utf-8')).hexdigest()\<close>.  The digest is
  the library's; it is the parameter \<open>sha1_hexdigest\<close>, from the bytes to the hexadecimal
  text.  A \<open>content\<close> of \<open>None\<close> has no \<open>encode\<close>.
\<close>

definition encode_utf8 :: "string \<Rightarrow> nat list" where
  "encode_utf8 s =
     concat (map (\<lambda>c. if ord c < 128 then [ord c]
                        else [192 + ord c div 64, 128 + ord c mod 64]) s)"

definition to_hash :: "(nat list \<Rightarrow> string) \<Rightarrow> Highlight \<Rightarrow> error + string" where
  "to_hash sha1_hexdigest h =
     (case content h of
        None \<Rightarrow> Inl AttributeError
      | Some c \<Rightarrow> Inr (sha1_hexdigest (encode_utf8 c)))"

section \<open>Book\<close>

record Book =
  book_title :: string
  book_author :: "string option"
  highlights :: "Highlight list"

text \<open>
  \<open>Book.__init__\<close> tidies the title again and adds it to the class attribute
  \<open>Book.book_titles\<close>, which is passed in and returned.
\<close>

definition Book_init :: "string set \<Rightarrow> string \<Rightarrow> string option \<Rightarrow> Book \<times> string set" where
  "Book_init book_titles t a =
     (let t' = tidy_title t
      in (\<lparr>book_title = t', book_author = a, highlights = []\<rparr>, insert t' book_titles))"

definition add_highlight :: "Book \<Rightarrow> Highlight \<Rightarrow> Book" where
  \<comment> \<open>\<open>if highlight:\<close> holds for every \<open>Highlight\<close> object\<close>
  "add_highlight b h = b\<lparr>highlights := highlights b @ [h]\<rparr>"

section \<open>process\<close>

definition HIGHLIGHT_SEPARATOR :: string where
  "HIGHLIGHT_SEPARATOR = ''==========''"

text \<open>
  One pass of the first loop of \<open>process\<close>, on the registry \<open>Book.book_titles\<close> and the
  \<open>library\<close>.  A title of \<open>None\<close> equals no book's title.
\<close>

definition add_to_library :: "string set \<times> Book list \<Rightarrow> Highlight \<Rightarrow> string set \<times> Book list" where
  "add_to_library st h =
     (let book_titles = fst st; library = snd st
      in case title h of
           Some t \<Rightarrow>
             if t \<notin> book_titles
             then (let (b, book_titles) = Book_init book_titles t (author h);
                       b = add_highlight b h
                   in (book_titles, library @ [b]))
             else (book_titles,
                   map (\<lambda>b. if Some (book_title b) = title h then add_highlight b h else b) library)
         | None \<Rightarrow>
             (book_titles,
              map (\<lambda>b. if Some (book_title b) = title h then add_highlight b h else b) library))"

fun process_highlights ::
  "string list \<Rightarrow> string set \<times> Book list \<Rightarrow> error + (string set \<times> Book list)" where
  "process_highlights [] st = Inr st"
| "process_highlights (raw_str # rest) st =
     and_then (Highlight_init raw_str) (\<lambda>h. process_highlights rest (add_to_library st h))"

text \<open>
  The second loop hands each book with a non-empty title to \<open>write_book_to_supabase\<close>,
  unless its stripped title is in \<open>processed_books\<close> already.  The books handed over are
  collected in order.
\<close>

fun write_books :: "Book list \<Rightarrow> string list \<Rightarrow> Book list" where
  "write_books [] processed_books = []"
| "write_books (book # rest) processed_books =
     (if book_title book \<noteq> []
      then (if str_strip (book_title book) \<notin> set processed_books
            then book # write_books rest (processed_books @ [str_strip (book_title book)])
            else write_books rest processed_books)
      else write_books rest processed_books)"

text \<open>
  \<open>process\<close> on the contents of the clippings file: the library it builds and the books it
  writes.  An exception raised for one block ends the run.
\<close>

definition process :: "string \<Rightarrow> error + (Book list \<times> Book list)" where
  "process file_contents =
     (let highlights = str_split HIGHLIGHT_SEPARATOR file_contents
      in and_then (process_highlights highlights ({}, [])) (\<lambda>(book_titles, library).
           Inr (library, write_books library [])))"

text \<open>
  For stating properties of a run: the highlights built from the blocks of a file, in file
  order, and the titles they carry (a highlight built from the all-\<open>None\<close> tuple has
  none).
\<close>

definition parsed_highlights :: "string \<Rightarrow> Highlight list" where
  "parsed_highlights file_contents =
     concat (map (\<lambda>raw_str. case Highlight_init raw_str of Inl e \<Rightarrow> [] | Inr h \<Rightarrow> [h])
                 (str_split HIGHLIGHT_SEPARATOR file_contents))"

definition seen_titles :: "Highlight list \<Rightarrow> string list" where
  "seen_titles hs = concat (map (\<lambda>h. case title h of None \<Rightarrow> [] | Some t \<Rightarrow> [t]) hs)"

definition first_seen :: "'a list \<Rightarrow> 'a list" where
  \<comment> \<open>the distinct elements in the order of their first occurrence\<close>
  "first_seen xs = rev (remdups (rev xs))"

text \<open>
  The invariant of the first loop of \<open>process\<close>, after the highlights \<open>hs\<close>: the registry
  holds the titles of the library's books, the books stand in the order their titles were
  first seen, and each book holds the highlights of its title in the order met.
\<close>

definition library_inv :: "Highlight list \<Rightarrow> string set \<times> Book list \<Rightarrow> bool" where
  "library_inv hs st \<longleftrightarrow>
     fst st = set (map book_title (snd st))
   \<and> map book_title (snd st) = first_seen (seen_titles hs)
   \<and> (\<forall>b\<in>set (snd st). highlights b = filter (\<lambda>h. title h = Some (book_title b)) hs)"

section \<open>Properties of the title normalizer\<close>

lemma word_not_space: "word_char c \<Longrightarrow> \<not> isspace c"
  by (auto simp: word_char_def isalnum_def isspace_def ascii_letter_def isdecimal_def ord_def)

lemma dropWhile_rev_fix:
  assumes "dropWhile P zs = zs"
  shows "dropWhile P (rev (dropWhile P (rev zs))) = rev (dropWhile P (rev zs))"
proof (cases "dropWhile P (rev zs) = []")
  case True
  show ?thesis unfolding True by simp
next
  case False
  define ws where "ws = dropWhile P (rev zs)"
  have ws: "ws \<noteq> []" using False by (simp add: ws_def)
  have "rev zs = takeWhile P (rev zs) @ ws"
    by (simp add: ws_def)
  then have "zs = rev ws @ rev (takeWhile P (rev zs))"
    by (metis rev_append rev_rev_ident)
  then have hd_eq: "hd zs = hd (rev ws)"
    using ws by (metis hd_append2 rev_is_Nil_conv)
  have "zs \<noteq> []" using False by auto
  then have "\<not> P (hd zs)"
    using assms by (metis hd_dropWhile)
  then have "\<not> P (hd (rev ws))" using hd_eq by simp
  then have "dropWhile P (rev ws) = rev ws"
    using ws by (cases "rev ws") auto
  then show ?thesis by (simp add: ws_def)
qed

lemma dropWhile_weaker:
  assumes "\<And>x. Q x \<Longrightarrow> P x" and "dropWhile P xs = xs"
  shows "dropWhile Q xs = xs"
proof (cases xs)
  case Nil
  then show ?thesis by simp
next
  case (Cons a list)
  then have "\<not> P a"
    using assms(2) by (metis hd_dropWhile list.sel(1) list.distinct(1))
  then have "\<not> Q a" using assms(1) by blast
  then show ?thesis using Cons by simp
qed

lemma tidy_title_alt:
  "tidy_title s = rev (dropWhile (\<lambda>c. \<not> word_char c)
                    (rev (dropWhile (\<lambda>c. \<not> word_char c) (filter title_char s))))"
  by (simp add: tidy_title_def Let_def)

lemma tidy_title_chars: "set (tidy_title s) \<subseteq> {c. title_char c}"
proof -
  have "set (tidy_title s) \<subseteq> set (filter title_char s)"
    unfolding tidy_title_alt by (metis set_rev set_dropWhileD subsetI)
  then show ?thesis by auto
qed

lemma tidy_title_front: "dropWhile (\<lambda>c. \<not> word_char c) (tidy_title s) = tidy_title s"
  unfolding tidy_title_alt
  by (rule dropWhile_rev_fix) (rule dropWhile_idem)

lemma tidy_title_back:
  "dropWhile (\<lambda>c. \<not> word_char c) (rev (tidy_title s)) = rev (tidy_title s)"
  unfolding tidy_title_alt by simp

lemma tidy_title_twice: "tidy_title (tidy_title s) = tidy_title s"
proof -
  have "filter title_char (tidy_title s) = tidy_title s"
    using tidy_title_chars[of s] by (auto simp: filter_id_conv)
  then have "tidy_title (tidy_title s)
      = rev (dropWhile (\<lambda>c. \<not> word_char c)
          (rev (dropWhile (\<lambda>c. \<not> word_char c) (tidy_title s))))"
    by (simp add: tidy_title_alt[of "tidy_title s"])
  also have "\<dots> = tidy_title s"
    by (simp add: tidy_title_front tidy_title_back)
  finally show ?thesis .
qed

lemma str_strip_tidy_title: "str_strip (tidy_title s) = tidy_title s"
proof -
  have imp: "\<And>x. isspace x \<Longrightarrow> \<not> word_char x" using word_not_space by blast
  have a: "dropWhile isspace (tidy_title s) = tidy_title s"
    using dropWhile_weaker[OF imp tidy_title_front] .
  have b: "dropWhile isspace (rev (tidy_title s)) = rev (tidy_title s)"
    using dropWhile_weaker[OF imp tidy_title_back] .
  show ?thesis by (simp add: str_strip_def a b)
qed

text \<open>
  Claim C8.  Title normalization is idempotent: for every string \<open>s\<close>, normalizing the
  normalized title returns it unchanged.
\<close>

theorem C8_tidy_title_idempotent: "tidy_title (tidy_title s) = tidy_title s"
  by (rule tidy_title_twice)

section \<open>Properties of the block splitter\<close>

lemma str_split_not_Nil: "str_split sep s \<noteq> []"
  by (induction sep s rule: str_split.induct) (auto split: list.splits)

lemma starts_with_drop: "starts_with s p \<Longrightarrow> p @ drop (length p) s = s"
  by (induction s p rule: starts_with.induct) auto

lemma str_join_Cons_Cons: "str_join sep ((c # b) # bs) = c # str_join sep (b # bs)"
  by (cases bs) auto

lemma str_join_split:
  "sep \<noteq> [] \<Longrightarrow> str_join sep (str_split sep s) = s"
proof (induction sep s rule: str_split.induct)
  case (1 sep)
  then show ?case by simp
next
  case (2 sep c cs)
  show ?case
  proof (cases "starts_with (c # cs) sep")
    case True
    obtain b bs where bs: "str_split sep (drop (length sep) (c # cs)) = b # bs"
      using str_split_not_Nil[of sep "drop (length sep) (c # cs)"] by (cases "str_split sep (drop (length sep) (c # cs))") auto
    have "str_join sep (str_split sep (drop (length sep) (c # cs))) = drop (length sep) (c # cs)"
      using 2 True by simp
    then have "str_join sep ([] # b # bs) = sep @ drop (length sep) (c # cs)"
      using bs by simp
    also have "\<dots> = c # cs" using starts_with_drop[OF True] .
    finally show ?thesis using True 2(3) bs by simp
  next
    case False
    obtain b bs where bs: "str_split sep cs = b # bs"
      using str_split_not_Nil[of sep cs] by (cases "str_split sep cs") auto
    have "str_join sep (b # bs) = cs" using 2 False bs by simp
    then show ?thesis using False bs by (simp add: str_join_Cons_Cons)
  qed
qed

lemma length_str_split: "length (str_split sep s) = str_count sep s + 1"
  by (induction sep s rule: str_split.induct) (auto split: list.splits simp: str_split_not_Nil)

lemma str_split_hd_prefix: "str_split sep s = b # bs \<Longrightarrow> \<exists>r. s = b @ r"
proof (induction sep s arbitrary: b bs rule: str_split.induct)
  case (1 sep)
  then show ?case by simp
next
  case (2 sep c cs)
  show ?case
  proof (cases "sep \<noteq> [] \<and> starts_with (c # cs) sep")
    case True
    then have "b = []" using 2(3) by simp
    then show ?thesis by simp
  next
    case False
    obtain b' bs' where bs: "str_split sep cs = b' # bs'"
      using str_split_not_Nil[of sep cs] by (cases "str_split sep cs") auto
    then obtain r where "cs = b' @ r" using 2(2)[OF False bs] by blast
    moreover have "b = c # b'" using 2(3) False bs by auto
    ultimately show ?thesis by simp
  qed
qed

lemma starts_with_append: "starts_with b p \<Longrightarrow> starts_with (b @ r) p"
  by (induction b p rule: starts_with.induct) auto

lemma str_split_blocks_free:
  "sep \<noteq> [] \<Longrightarrow> b \<in> set (str_split sep s) \<Longrightarrow> str_count sep b = 0"
proof (induction sep s arbitrary: b rule: str_split.induct)
  case (1 sep)
  then show ?case by simp
next
  case (2 sep c cs)
  show ?case
  proof (cases "starts_with (c # cs) sep")
    case True
    then show ?thesis using 2 by auto
  next
    case False
    obtain b' bs' where bs: "str_split sep cs = b' # bs'"
      using str_split_not_Nil[of sep cs] by (cases "str_split sep cs") auto
    then obtain r where r: "cs = b' @ r" using str_split_hd_prefix by blast
    have "\<not> starts_with (c # b') sep"
      using False r starts_with_append[of "c # b'" sep r] by auto
    moreover have "str_count sep b' = 0" using 2(2)[of b'] 2(3) False bs by simp
    ultimately have "str_count sep (c # b') = 0" by simp
    moreover have "b = c # b' \<or> b \<in> set bs'" using 2(4) False bs by auto
    moreover have "b \<in> set bs' \<Longrightarrow> str_count sep b = 0"
      using 2(2)[of b] 2(3) False bs by simp
    ultimately show ?thesis by blast
  qed
qed

text \<open>
  Claim C7.  Splitting a file content that holds \<open>N\<close> occurrences of the separator
  (counted from the left without overlap, as \<open>str.count\<close> does) yields \<open>N + 1\<close> blocks,
  and joining the blocks with the separator gives the file content back: no block is
  dropped, reordered or merged.  No block holds a separator of its own.
\<close>

theorem C7_split_blocks:
  "length (str_split HIGHLIGHT_SEPARATOR file_contents)
     = str_count HIGHLIGHT_SEPARATOR file_contents + 1
   \<and> str_join HIGHLIGHT_SEPARATOR (str_split HIGHLIGHT_SEPARATOR file_contents) = file_contents
   \<and> list_all (\<lambda>block. str_count HIGHLIGHT_SEPARATOR block = 0)
                (str_split HIGHLIGHT_SEPARATOR file_contents)"
proof -
  have sep: "HIGHLIGHT_SEPARATOR \<noteq> []" by (simp add: HIGHLIGHT_SEPARATOR_def)
  have "list_all (\<lambda>block. str_count HIGHLIGHT_SEPARATOR block = 0)
                 (str_split HIGHLIGHT_SEPARATOR file_contents)"
    unfolding list_all_iff using str_split_blocks_free[OF sep] by blast
  then show ?thesis using sep by (simp add: length_str_split str_join_split)
qed

section \<open>Properties of the content hash and the descriptor parser\<close>

text \<open>
  Claim C9.  The content hash is a function of the content alone: two highlights with the
  same content have the same hash, whatever their title, author, kind or location.
\<close>

theorem C9_hash_of_content:
  assumes "content h1 = content h2"
  shows "to_hash sha1_hexdigest h1 = to_hash sha1_hexdigest h2"
  using assms by (simp add: to_hash_def)

theorem C9_hash_of_content_witness:
  "content \<lparr>title = Some ''A'', author = Some ''B'', highlight_type = Some ''Note'',
             main_loc = Some ''Location 1'', date = Some ''24/10/18 10:25:36'',
             content = Some ''same text''\<rparr>
   = content \<lparr>title = Some ''C'', author = Some ''D'', highlight_type = Some ''Highlight'',
               main_loc = Some ''Location 2'', date = Some ''04/03/19 01:02:03'',
               content = Some ''same text''\<rparr>
   \<and> (\<forall>sha1_hexdigest.
        to_hash sha1_hexdigest
          \<lparr>title = Some ''A'', author = Some ''B'', highlight_type = Some ''Note'',
           main_loc = Some ''Location 1'', date = Some ''24/10/18 10:25:36'',
           content = Some ''same text''\<rparr>
        = to_hash sha1_hexdigest
          \<lparr>title = Some ''C'', author = Some ''D'', highlight_type = Some ''Highlight'',
           main_loc = Some ''Location 2'', date = Some ''04/03/19 01:02:03'',
           content = Some ''same text''\<rparr>)"
proof -
  let ?h1 = "\<lparr>title = Some ''A'', author = Some ''B'', highlight_type = Some ''Note'',
             main_loc = Some ''Location 1'', date = Some ''24/10/18 10:25:36'',
             content = Some ''same text''\<rparr>"
  let ?h2 = "\<lparr>title = Some ''C'', author = Some ''D'', highlight_type = Some ''Highlight'',
               main_loc = Some ''Location 2'', date = Some ''04/03/19 01:02:03'',
               content = Some ''same text''\<rparr>"
  have same: "content ?h1 = content ?h2" by simp
  have "\<And>f. to_hash f ?h1 = to_hash f ?h2"
    by (rule C9_hash_of_content[OF same])
  then show ?thesis using same by blast
qed

text \<open>
  Claim C10.  There is a block with at least five lines, an author parenthetical and the
  separator \<open>" | Added on "\<close> in its second line, whose descriptor has no \<open>" on "\<close>:
  \<open>get_type_and_location\<close> raises \<open>IndexError\<close> on the descriptor, and so does parsing the
  block.
\<close>

theorem C10_descriptor_without_on_raises:
  "5 \<le> length (str_split ''\<newline>'' ''Some Book (An Author)\<newline>- Your Bookmark at Location 77 | Added on Wednesday, October 24, 2018 10:25:36 PM\<newline>\<newline>\<newline>'')
   \<and> re_search_author 0 ''Some Book (An Author)'' = Some (10, ''An Author'')
   \<and> str_split '' | Added on '' ''- Your Bookmark at Location 77 | Added on Wednesday, October 24, 2018 10:25:36 PM''
       = [''- Your Bookmark at Location 77'', ''Wednesday, October 24, 2018 10:25:36 PM'']
   \<and> str_split '' on '' ''Bookmark at Location 77'' = [''Bookmark at Location 77'']
   \<and> get_type_and_location ''- Your Bookmark at Location 77'' = Inl IndexError
   \<and> parse_highlight ''Some Book (An Author)\<newline>- Your Bookmark at Location 77 | Added on Wednesday, October 24, 2018 10:25:36 PM\<newline>\<newline>\<newline>'' = Inl IndexError"
  by code_simp

section \<open>Properties of the clipping parser\<close>


lemma strptime_error: "strptime s = Inl e \<Longrightarrow> e = ValueError"
  by (auto simp: strptime_def split: list.splits prod.splits if_splits)

lemma tidy_date_error: "tidy_date raw = Inl e \<Longrightarrow> e = ValueError"
  by (auto simp: tidy_date_def and_then_def Let_def split: sum.splits dest: strptime_error)

lemma get_type_and_location_error: "get_type_and_location d = Inl e \<Longrightarrow> e = IndexError"
  by (auto simp: get_type_and_location_def and_then_def getitem_def Let_def
           split: sum.splits if_splits)


lemma parse_highlight_outcomes:
  "parse_highlight b = Inl IndexError \<or> parse_highlight b = Inl ValueError
   \<or> parse_highlight b = Inr empty_set
   \<or> (\<exists>t a k l d c. parse_highlight b = Inr (Some t, Some a, Some k, Some l, Some d, Some c))"
  unfolding parse_highlight_def Let_def and_then_def getitem_def
  by (auto split: sum.splits option.splits if_splits
           dest: tidy_date_error get_type_and_location_error)

lemma parse_highlight_short:
  "length (str_split ''\<newline>'' b) < 5 \<Longrightarrow> parse_highlight b = Inr empty_set"
  by (simp add: parse_highlight_def)

lemma str_split_newline_Cons:
  "str_split ''\<newline>'' (CHR ''\<newline>'' # b) = [] # str_split ''\<newline>'' b"
  by simp

lemma parse_highlight_leading_newline:
  assumes "5 \<le> length (str_split ''\<newline>'' b)" and "hd (str_split ''\<newline>'' b) \<noteq> []"
  shows "parse_highlight (CHR ''\<newline>'' # b) = parse_highlight b"
proof -
  obtain l ls where ls: "str_split ''\<newline>'' b = l # ls"
    using assms(1) by (cases "str_split ''\<newline>'' b") auto
  have l: "l \<noteq> []" using assms(2) ls by simp
  have len: "\<not> length ls < 4" using assms(1) ls by simp
  show ?thesis
    unfolding parse_highlight_def str_split_newline_Cons ls
    using l len by (simp add: and_then_def getitem_def Let_def split: option.splits)
qed

text \<open>The body of \<open>parse_highlight\<close> past the length check, on the lines it reads.\<close>

lemma parse_highlight_lines:
  assumes len: "5 \<le> length (str_split ''\<newline>'' b)"
  shows "parse_highlight b =
     (case re_search_author 0 (block_lines b ! 0) of
        None \<Rightarrow> Inr empty_set
      | Some (start, group1) \<Rightarrow>
          let highlight_details_split = str_split '' | Added on '' (block_lines b ! 1)
          in if highlight_details_split \<noteq> []
             then
               and_then (getitem highlight_details_split 0) (\<lambda>descriptor.
               and_then (get_type_and_location descriptor) (\<lambda>type_and_location.
               and_then (getitem highlight_details_split 1) (\<lambda>d.
               and_then (tidy_date d) (\<lambda>d.
                 Inr (Some (str_strip (tidy_title (take start (block_lines b ! 0)))),
                      Some (str_strip group1),
                      Some (str_strip (fst type_and_location)),
                      Some (str_strip (snd type_and_location)),
                      Some d,
                      Some (str_strip (str_join ''\<newline>'' (butlast (drop 3 (block_lines b))))))))))
             else Inr empty_set)"
proof -
  obtain l0 ls where ls: "str_split ''\<newline>'' b = l0 # ls"
    using len by (cases "str_split ''\<newline>'' b") auto
  have lines: "block_lines b = (if l0 = [] then ls else l0 # ls)"
    using ls by (simp add: block_lines_def Let_def)
  have "4 \<le> length ls" using len ls by simp
  then have facts: "ls \<noteq> []" "Suc 0 < length ls" "\<not> length ls < 4" by auto
  show ?thesis
  proof (cases "l0 = []")
    case True
    then have eq: "block_lines b = ls" using lines by simp
    show ?thesis
      unfolding eq unfolding parse_highlight_def ls using True facts
      by (simp add: Let_def and_then_def getitem_def split: option.splits)
  next
    case False
    then have eq: "block_lines b = l0 # ls" using lines by simp
    show ?thesis
      unfolding eq unfolding parse_highlight_def ls using False facts
      by (simp add: Let_def and_then_def getitem_def split: option.splits)
  qed
qed

lemma parse_highlight_populated:
  assumes "parse_highlight b = Inr (Some t, Some a, Some k, Some loc, Some dt, Some c)"
  shows "\<exists>i g kl.
           5 \<le> length (str_split ''\<newline>'' b)
         \<and> re_search_author 0 (block_lines b ! 0) = Some (i, g)
         \<and> 1 < length (str_split '' | Added on '' (block_lines b ! 1))
         \<and> get_type_and_location (str_split '' | Added on '' (block_lines b ! 1) ! 0) = Inr kl
         \<and> tidy_date (str_split '' | Added on '' (block_lines b ! 1) ! 1) = Inr dt
         \<and> t = str_strip (tidy_title (take i (block_lines b ! 0)))
         \<and> a = str_strip g
         \<and> k = str_strip (fst kl) \<and> loc = str_strip (snd kl)
         \<and> c = str_strip (str_join ''\<newline>'' (butlast (drop 3 (block_lines b))))"
proof -
  have len: "5 \<le> length (str_split ''\<newline>'' b)"
    using assms by (auto simp: parse_highlight_def empty_set_def Let_def split: if_splits)
  show ?thesis
    using assms len unfolding parse_highlight_lines[OF len]
    by (auto simp: Let_def and_then_def getitem_def empty_set_def
             split: option.splits if_splits sum.splits)
qed

lemma parse_highlight_bad_date:
  assumes "5 \<le> length (str_split ''\<newline>'' b)"
    and "re_search_author 0 (block_lines b ! 0) = Some (i, g)"
    and "1 < length (str_split '' | Added on '' (block_lines b ! 1))"
    and "get_type_and_location (str_split '' | Added on '' (block_lines b ! 1) ! 0) = Inr kl"
    and "tidy_date (str_split '' | Added on '' (block_lines b ! 1) ! 1) = Inl e"
  shows "parse_highlight b = Inl ValueError"
proof -
  have "e = ValueError" using assms(5) by (rule tidy_date_error)
  then show ?thesis
    using assms(2-5) unfolding parse_highlight_lines[OF assms(1)]
    by (auto simp: Let_def and_then_def getitem_def)
qed

section \<open>The example blocks\<close>

lemma parse_highlight_example:
  "parse_highlight ''The Great Book (Jane Author)\<newline>- Your Highlight on Location 120-121 | Added on Wednesday, October 24, 2018 10:25:36 PM\<newline>\<newline>This is the highlighted text.\<newline>''
   = Inr (Some ''The Great Book'', Some ''Jane Author'', Some ''Highlight'',
          Some ''Location 120-121'', Some ''24/10/18 10:25:36'',
          Some ''This is the highlighted text.'')"
  by code_simp

text \<open>
  Claim C1, as stated, fails: on the example block the location keeps its keyword and the
  hour is the one written in the block, not its 24-hour form.
\<close>

theorem C1_example_block_counterexample:
  "parse_highlight ''The Great Book (Jane Author)\<newline>- Your Highlight on Location 120-121 | Added on Wednesday, October 24, 2018 10:25:36 PM\<newline>\<newline>This is the highlighted text.\<newline>''
   \<noteq> Inr (Some ''The Great Book'', Some ''Jane Author'', Some ''Highlight'',
          Some ''120-121'', Some ''24/10/18 22:25:36'',
          Some ''This is the highlighted text.'')"
  using parse_highlight_example by simp

text \<open>
  Claim C1, amended.  Parsing the example block yields the title \<open>The Great Book\<close>, the
  author \<open>Jane Author\<close>, the kind \<open>Highlight\<close>, the location \<open>Location 120-121\<close> (the text
  after \<open>" on "\<close>, keyword included), the content \<open>This is the highlighted text.\<close> and a
  timestamp of the form \<open>DD/MM/YY HH:MM:SS\<close> with the date 24/10/18 and 25 minutes
  36 seconds.
\<close>

theorem C1_example_block:
  "\<exists>hh. length hh = 2 \<and>
     parse_highlight ''The Great Book (Jane Author)\<newline>- Your Highlight on Location 120-121 | Added on Wednesday, October 24, 2018 10:25:36 PM\<newline>\<newline>This is the highlighted text.\<newline>''
     = Inr (Some ''The Great Book'', Some ''Jane Author'', Some ''Highlight'',
            Some ''Location 120-121'', Some (''24/10/18 '' @ hh @ '':25:36''),
            Some ''This is the highlighted text.'')"
proof -
  have "length ''10'' = 2" by simp
  moreover have "''24/10/18 10:25:36'' = ''24/10/18 '' @ ''10'' @ '':25:36''" by simp
  ultimately show ?thesis using parse_highlight_example by metis
qed





section \<open>The length check and the outcomes of parsing\<close>

text \<open>
  Claim C4, as stated, fails: a block of five lines whose first line is empty passes the
  length check, which counts the empty line, and parses to a clipping from the four lines
  that remain.
\<close>

theorem C4_length_check_counterexample:
  "str_split ''\<newline>'' ''\<newline>Short (A. Writer)\<newline>- Your Bookmark on Location 12 | Added on Monday, March 4, 2019 1:02:03 AM\<newline>\<newline>''
     = ['''', ''Short (A. Writer)'', ''- Your Bookmark on Location 12 | Added on Monday, March 4, 2019 1:02:03 AM'', '''', '''']
   \<and> parse_highlight ''\<newline>Short (A. Writer)\<newline>- Your Bookmark on Location 12 | Added on Monday, March 4, 2019 1:02:03 AM\<newline>\<newline>''
     = Inr (Some ''Short'', Some ''A. Writer'', Some ''Bookmark'', Some ''Location 12'',
            Some ''04/03/19 01:02:03'', Some '''')"
  by code_simp

text \<open>
  Claim C4, amended.  For every raw block, the parser first requires at least 5 lines in
  the block as split, an empty first line included, and returns the all-\<open>None\<close> tuple
  otherwise; only then does it drop an empty first line and read the fields from the
  lines that remain, also when only 4 remain.  So a newline in front of a block of at
  least 5 lines with a non-empty first line does not change the result.  In particular
  every block with only 3 lines yields the all-\<open>None\<close> tuple.
\<close>

theorem C4_length_check:
  "(length (str_split ''\<newline>'' b) < 5 \<longrightarrow> parse_highlight b = Inr empty_set)
   \<and> (5 \<le> length (str_split ''\<newline>'' b) \<longrightarrow>
        parse_highlight b =
          (case re_search_author 0 (block_lines b ! 0) of
             None \<Rightarrow> Inr empty_set
           | Some (start, group1) \<Rightarrow>
               let highlight_details_split = str_split '' | Added on '' (block_lines b ! 1)
               in if highlight_details_split \<noteq> []
                  then
                    and_then (getitem highlight_details_split 0) (\<lambda>descriptor.
                    and_then (get_type_and_location descriptor) (\<lambda>type_and_location.
                    and_then (getitem highlight_details_split 1) (\<lambda>d.
                    and_then (tidy_date d) (\<lambda>d.
                      Inr (Some (str_strip (tidy_title (take start (block_lines b ! 0)))),
                           Some (str_strip group1),
                           Some (str_strip (fst type_and_location)),
                           Some (str_strip (snd type_and_location)),
                           Some d,
                           Some (str_strip (str_join ''\<newline>''
                                   (butlast (drop 3 (block_lines b))))))))))
                  else Inr empty_set))
   \<and> (5 \<le> length (str_split ''\<newline>'' b) \<and> hd (str_split ''\<newline>'' b) \<noteq> []
        \<longrightarrow> parse_highlight (CHR ''\<newline>'' # b) = parse_highlight b)"
  using parse_highlight_short[of b] parse_highlight_lines[of b]
        parse_highlight_leading_newline[of b]
  by (intro conjI impI) blast+

theorem C4_length_check_witness:
  "length (str_split ''\<newline>'' ''one\<newline>two\<newline>three'') = 3
   \<and> parse_highlight ''one\<newline>two\<newline>three'' = Inr empty_set
   \<and> str_split ''\<newline>'' ''\<newline>Brief (C. Author)\<newline>- Your Highlight on Location 9 | Added on Tuesday, March 5, 2019 2:03:04 AM\<newline>\<newline>''
       = ['''', ''Brief (C. Author)'', ''- Your Highlight on Location 9 | Added on Tuesday, March 5, 2019 2:03:04 AM'', '''', '''']
   \<and> block_lines ''\<newline>Brief (C. Author)\<newline>- Your Highlight on Location 9 | Added on Tuesday, March 5, 2019 2:03:04 AM\<newline>\<newline>''
       = [''Brief (C. Author)'', ''- Your Highlight on Location 9 | Added on Tuesday, March 5, 2019 2:03:04 AM'', '''', '''']
   \<and> parse_highlight ''\<newline>Brief (C. Author)\<newline>- Your Highlight on Location 9 | Added on Tuesday, March 5, 2019 2:03:04 AM\<newline>\<newline>''
       = Inr (Some ''Brief'', Some ''C. Author'', Some ''Highlight'', Some ''Location 9'',
              Some ''05/03/19 02:03:04'', Some '''')
   \<and> length (str_split ''\<newline>'' ''Short (A. Writer)\<newline>- Your Bookmark on Location 12 | Added on Monday, March 4, 2019 1:02:03 AM\<newline>\<newline>\<newline>'') = 5
   \<and> parse_highlight (CHR ''\<newline>'' # ''Short (A. Writer)\<newline>- Your Bookmark on Location 12 | Added on Monday, March 4, 2019 1:02:03 AM\<newline>\<newline>\<newline>'')
     = parse_highlight ''Short (A. Writer)\<newline>- Your Bookmark on Location 12 | Added on Monday, March 4, 2019 1:02:03 AM\<newline>\<newline>\<newline>''"
proof -
  let ?b3 = "''one\<newline>two\<newline>three''"
  let ?b4 = "''\<newline>Brief (C. Author)\<newline>- Your Highlight on Location 9 | Added on Tuesday, March 5, 2019 2:03:04 AM\<newline>\<newline>''"
  let ?b5 = "''Short (A. Writer)\<newline>- Your Bookmark on Location 12 | Added on Monday, March 4, 2019 1:02:03 AM\<newline>\<newline>\<newline>''"
  have l3: "length (str_split ''\<newline>'' ?b3) = 3" by code_simp
  have s4: "str_split ''\<newline>'' ?b4
       = ['''', ''Brief (C. Author)'', ''- Your Highlight on Location 9 | Added on Tuesday, March 5, 2019 2:03:04 AM'', '''', '''']"
    by code_simp
  have l4: "5 \<le> length (str_split ''\<newline>'' ?b4)" unfolding s4 by simp
  have bl4: "block_lines ?b4
       = [''Brief (C. Author)'', ''- Your Highlight on Location 9 | Added on Tuesday, March 5, 2019 2:03:04 AM'', '''', '''']"
    unfolding block_lines_def s4 by simp
  have l5: "length (str_split ''\<newline>'' ?b5) = 5" by code_simp
  have h5: "hd (str_split ''\<newline>'' ?b5) \<noteq> []" by code_simp
  have r3: "parse_highlight ?b3 = Inr empty_set"
    using C4_length_check[of ?b3] l3 by simp
  have eq4: "parse_highlight ?b4 =
          (case re_search_author 0 (block_lines ?b4 ! 0) of
             None \<Rightarrow> Inr empty_set
           | Some (start, group1) \<Rightarrow>
               let highlight_details_split = str_split '' | Added on '' (block_lines ?b4 ! 1)
               in if highlight_details_split \<noteq> []
                  then
                    and_then (getitem highlight_details_split 0) (\<lambda>descriptor.
                    and_then (get_type_and_location descriptor) (\<lambda>type_and_location.
                    and_then (getitem highlight_details_split 1) (\<lambda>d.
                    and_then (tidy_date d) (\<lambda>d.
                      Inr (Some (str_strip (tidy_title (take start (block_lines ?b4 ! 0)))),
                           Some (str_strip group1),
                           Some (str_strip (fst type_and_location)),
                           Some (str_strip (snd type_and_location)),
                           Some d,
                           Some (str_strip (str_join ''\<newline>''
                                   (butlast (drop 3 (block_lines ?b4))))))))))
                  else Inr empty_set)"
    using C4_length_check[of ?b4] l4 by blast
  have r4: "parse_highlight ?b4
       = Inr (Some ''Brief'', Some ''C. Author'', Some ''Highlight'', Some ''Location 9'',
              Some ''05/03/19 02:03:04'', Some '''')"
    by (subst eq4) code_simp
  have r5: "parse_highlight (CHR ''\<newline>'' # ?b5) = parse_highlight ?b5"
    using C4_length_check[of ?b5] l5 h5 by simp
  show ?thesis using l3 r3 s4 bl4 r4 l5 r5 by (intro conjI)
qed

text \<open>
  Claim C2, as stated, fails: a block whose date text does not match the verbose format
  makes \<open>parse_highlight\<close> raise \<open>ValueError\<close>.
\<close>

theorem C2_parse_outcomes_counterexample:
  "parse_highlight ''Short (A. Writer)\<newline>- Your Bookmark on Location 12 | Added on yesterday evening\<newline>\<newline>\<newline>''
   = Inl ValueError"
  by code_simp

text \<open>
  Claim C2, amended.  For every raw block, parsing raises \<open>IndexError\<close> or \<open>ValueError\<close>,
  or returns the all-\<open>None\<close> tuple, which carries neither the block text nor a reason, or
  returns six populated fields; no tuple is populated in part.  A block that has at least
  5 lines, an author parenthetical, a second piece after \<open>" | Added on "\<close> and a descriptor
  that parses, but whose date text \<open>tidy_date\<close> rejects, raises \<open>ValueError\<close>.
\<close>

theorem C2_parse_outcomes:
  "(parse_highlight b = Inl IndexError \<or> parse_highlight b = Inl ValueError
     \<or> parse_highlight b = Inr empty_set
     \<or> (\<exists>t a k l d c. parse_highlight b = Inr (Some t, Some a, Some k, Some l, Some d, Some c)))
   \<and> (5 \<le> length (str_split ''\<newline>'' b)
       \<and> re_search_author 0 (block_lines b ! 0) = Some (i, g)
       \<and> 1 < length (str_split '' | Added on '' (block_lines b ! 1))
       \<and> get_type_and_location (str_split '' | Added on '' (block_lines b ! 1) ! 0) = Inr kl
       \<and> tidy_date (str_split '' | Added on '' (block_lines b ! 1) ! 1) = Inl e
       \<longrightarrow> parse_highlight b = Inl ValueError)"
  using parse_highlight_outcomes[of b] parse_highlight_bad_date[of b i g kl e] by blast

theorem C2_parse_outcomes_witness:
  "tidy_date ''Friday, February 30, 2018 9:15:00 AM'' = Inl ValueError
   \<and> parse_highlight ''Short (A. Writer)\<newline>- Your Bookmark on Location 12 | Added on Friday, February 30, 2018 9:15:00 AM\<newline>\<newline>\<newline>''
     = Inl ValueError"
proof -
  let ?b = "''Short (A. Writer)\<newline>- Your Bookmark on Location 12 | Added on Friday, February 30, 2018 9:15:00 AM\<newline>\<newline>\<newline>''"
  have h1: "5 \<le> length (str_split ''\<newline>'' ?b)" by code_simp
  have h2: "re_search_author 0 (block_lines ?b ! 0) = Some (6, ''A. Writer'')" by code_simp
  have h3: "1 < length (str_split '' | Added on '' (block_lines ?b ! 1))" by code_simp
  have h4: "get_type_and_location (str_split '' | Added on '' (block_lines ?b ! 1) ! 0)
            = Inr (''Bookmark'', ''Location 12'')" by code_simp
  have h5: "tidy_date (str_split '' | Added on '' (block_lines ?b ! 1) ! 1) = Inl ValueError"
    by code_simp
  have h6: "tidy_date ''Friday, February 30, 2018 9:15:00 AM'' = Inl ValueError" by code_simp
  have "parse_highlight ?b = Inl ValueError"
    using C2_parse_outcomes[of ?b 6 "''A. Writer''" "(''Bookmark'', ''Location 12'')" ValueError]
          h1 h2 h3 h4 h5 by blast
  then show ?thesis using h6 by blast
qed

section \<open>Properties of the aggregation\<close>

lemma Highlight_init_title_tidy:
  assumes "Highlight_init raw = Inr h" and "title h = Some t"
  shows "tidy_title t = t"
proof -
  obtain r where r: "parse_highlight raw = Inr r"
    using assms(1) by (auto simp: Highlight_init_def and_then_def split: sum.splits)
  then have h: "h = \<lparr>title = fst r, author = fst (snd r), highlight_type = fst (snd (snd r)),
                       main_loc = fst (snd (snd (snd r))), date = fst (snd (snd (snd (snd r)))),
                       content = snd (snd (snd (snd (snd r))))\<rparr>"
    using assms(1) by (auto simp: Highlight_init_def and_then_def split: prod.splits)
  then have "fst r = Some t" using assms(2) by simp
  then have "r \<noteq> empty_set" by (auto simp: empty_set_def)
  then obtain a k l d c where "parse_highlight raw = Inr (Some t, Some a, Some k, Some l, Some d, Some c)"
    using parse_highlight_outcomes[of raw] r \<open>fst r = Some t\<close> by auto
  then obtain i where "t = str_strip (tidy_title (take i (block_lines raw ! 0)))"
    using parse_highlight_populated by blast
  then have "t = tidy_title (take i (block_lines raw ! 0))"
    by (simp add: str_strip_tidy_title)
  then show ?thesis by (metis tidy_title_twice)
qed

text \<open>The first loop of \<open>process\<close> as a fold over the highlights of the blocks.\<close>

lemma process_highlights_fold:
  "process_highlights blocks st = Inr st' \<Longrightarrow>
     st' = foldl add_to_library st
             (concat (map (\<lambda>raw_str. case Highlight_init raw_str of Inl e \<Rightarrow> [] | Inr h \<Rightarrow> [h]) blocks))"
  by (induction blocks arbitrary: st) (auto simp: and_then_def split: sum.splits)

lemma concat_Highlight_init_tidy:
  assumes "h \<in> set (concat (map (\<lambda>raw_str. case Highlight_init raw_str of Inl e \<Rightarrow> [] | Inr h \<Rightarrow> [h]) blocks))"
    and "title h = Some t"
  shows "tidy_title t = t"
proof -
  obtain raw where "Highlight_init raw = Inr h"
    using assms(1) by (auto split: sum.splits)
  then show ?thesis using assms(2) by (rule Highlight_init_title_tidy)
qed

lemma seen_titles_append: "seen_titles (hs @ [h]) = seen_titles hs @ (case title h of None \<Rightarrow> [] | Some t \<Rightarrow> [t])"
  by (simp add: seen_titles_def)

lemma seen_titles_mem: "t \<in> set (seen_titles hs) \<longleftrightarrow> (\<exists>h\<in>set hs. title h = Some t)"
  by (induction hs) (auto simp: seen_titles_def split: option.splits)

lemma first_seen_snoc:
  "first_seen (xs @ [x]) = (if x \<in> set xs then first_seen xs else first_seen xs @ [x])"
  by (simp add: first_seen_def)

lemma set_first_seen: "set (first_seen xs) = set xs"
  by (simp add: first_seen_def)


lemma library_inv_empty: "library_inv [] ({}, [])"
  by (simp add: library_inv_def seen_titles_def first_seen_def)

lemma library_inv_step:
  assumes inv: "library_inv hs st" and tidy: "\<And>t. title h = Some t \<Longrightarrow> tidy_title t = t"
  shows "library_inv (hs @ [h]) (add_to_library st h)"
proof (cases "title h")
  case None
  have same: "map (\<lambda>b. if Some (book_title b) = title h then add_highlight b h else b) (snd st) = snd st"
    using None by (simp add: map_idI)
  have eq1: "add_to_library st h = st"
    using None same by (simp add: add_to_library_def Let_def)
  have eq2: "seen_titles (hs @ [h]) = seen_titles hs"
    using None by (simp add: seen_titles_append)
  have eq3: "\<And>b. filter (\<lambda>x. title x = Some (book_title b)) (hs @ [h])
                    = filter (\<lambda>x. title x = Some (book_title b)) hs"
    using None by simp
  show ?thesis
    unfolding library_inv_def eq1 eq2 eq3 using inv unfolding library_inv_def .
next
  case (Some t)
  obtain T lib where st: "st = (T, lib)" by (cases st)
  have T: "T = set (map book_title lib)"
    using inv unfolding library_inv_def st fst_conv snd_conv by blast
  have order: "map book_title lib = first_seen (seen_titles hs)"
    using inv unfolding library_inv_def st fst_conv snd_conv by blast
  have hl: "\<And>b. b \<in> set lib \<Longrightarrow> highlights b = filter (\<lambda>x. title x = Some (book_title b)) hs"
    using inv unfolding library_inv_def st fst_conv snd_conv by blast
  have Tset: "T = set (seen_titles hs)"
    using T order by (simp add: set_first_seen)
  have tt: "tidy_title t = t" using tidy Some by simp
  have titles: "seen_titles (hs @ [h]) = seen_titles hs @ [t]"
    using Some by (simp add: seen_titles_append)
  show ?thesis
  proof (cases "t \<in> T")
    case False
    let ?b = "\<lparr>book_title = t, book_author = author h, highlights = [h]\<rparr>"
    have step: "add_to_library st h = (insert t T, lib @ [?b])"
      using Some False st tt
      by (simp add: add_to_library_def Let_def Book_init_def add_highlight_def)
    have none: "filter (\<lambda>x. title x = Some t) hs = []"
      using False Tset seen_titles_mem[of t hs] by (auto simp: filter_empty_conv)
    have old: "\<And>b. b \<in> set lib \<Longrightarrow> book_title b \<noteq> t"
      using False T by auto
    have a: "insert t T = set (map book_title (lib @ [?b]))" using T by simp
    have b: "map book_title (lib @ [?b]) = first_seen (seen_titles (hs @ [h]))"
      using order titles False Tset by (simp add: first_seen_snoc)
    have c: "\<forall>b\<in>set (lib @ [?b]). highlights b = filter (\<lambda>x. title x = Some (book_title b)) (hs @ [h])"
      using hl old Some none by auto
    show ?thesis unfolding step library_inv_def fst_conv snd_conv using a b c by (intro conjI)
  next
    case True
    let ?f = "\<lambda>b. if Some (book_title b) = title h then add_highlight b h else b"
    have step: "add_to_library st h = (T, map ?f lib)"
      using Some True st by (simp add: add_to_library_def Let_def)
    have keep: "map book_title (map ?f lib) = map book_title lib"
      by (simp add: add_highlight_def)
    have a: "T = set (map book_title (map ?f lib))" using T keep by simp
    have b: "map book_title (map ?f lib) = first_seen (seen_titles (hs @ [h]))"
      using keep order titles True Tset by (simp add: first_seen_snoc)
    have c: "\<forall>b\<in>set (map ?f lib). highlights b = filter (\<lambda>x. title x = Some (book_title b)) (hs @ [h])"
      using hl Some by (auto simp: add_highlight_def)
    show ?thesis unfolding step library_inv_def fst_conv snd_conv using a b c by (intro conjI)
  qed
qed

lemma library_inv_foldl:
  assumes "\<And>h t. h \<in> set hs \<Longrightarrow> title h = Some t \<Longrightarrow> tidy_title t = t"
  shows "library_inv hs (foldl add_to_library ({}, []) hs)"
  using assms
proof (induction hs rule: rev_induct)
  case Nil
  then show ?case by (simp add: library_inv_empty)
next
  case (snoc h hs)
  have "library_inv hs (foldl add_to_library ({}, []) hs)"
    by (rule snoc.IH) (use snoc.prems in auto)
  then have "library_inv (hs @ [h]) (add_to_library (foldl add_to_library ({}, []) hs) h)"
    using snoc.prems by (intro library_inv_step) auto
  then show ?case by simp
qed

lemma process_library_inv:
  assumes "process file_contents = Inr (library, written)"
  shows "\<exists>T. library_inv (parsed_highlights file_contents) (T, library)"
    and "written = write_books library []"
proof -
  obtain T where run: "process_highlights (str_split HIGHLIGHT_SEPARATOR file_contents) ({}, []) = Inr (T, library)"
    and w: "written = write_books library []"
    using assms by (auto simp: process_def Let_def and_then_def split: sum.splits prod.splits)
  have "(T, library) = foldl add_to_library ({}, []) (parsed_highlights file_contents)"
    using process_highlights_fold[OF run] by (simp add: parsed_highlights_def)
  moreover have "library_inv (parsed_highlights file_contents)
                   (foldl add_to_library ({}, []) (parsed_highlights file_contents))"
  proof (rule library_inv_foldl)
    fix h t
    assume "h \<in> set (parsed_highlights file_contents)" and "title h = Some t"
    then show "tidy_title t = t"
      unfolding parsed_highlights_def by (rule concat_Highlight_init_tidy)
  qed
  ultimately show "\<exists>T. library_inv (parsed_highlights file_contents) (T, library)" by metis
  show "written = write_books library []" by (rule w)
qed

lemma write_books_subset:
  "b \<in> set (write_books lib processed) \<Longrightarrow> b \<in> set lib \<and> book_title b \<noteq> []"
  by (induction lib processed rule: write_books.induct) (auto split: if_splits)

section \<open>The library of a run\<close>






text \<open>
  Claim C6, as stated, fails: a block whose title normalizes to the empty string gets a
  book of its own in the library.
\<close>

theorem C6_empty_title_counterexample:
  "process ''?! (Anon)\<newline>- Your Note on Location 3 | Added on Monday, March 4, 2019 1:02:03 AM\<newline>\<newline>x\<newline>''
   = Inr ([\<lparr>book_title = '''', book_author = Some ''Anon'',
            highlights =
              [\<lparr>title = Some '''', author = Some ''Anon'', highlight_type = Some ''Note'',
                main_loc = Some ''Location 3'', date = Some ''04/03/19 01:02:03'',
                content = Some ''x''\<rparr>]\<rparr>],
          [])"
  by code_simp

text \<open>
  Claim C6, amended.  For every run that completes: a highlight without a title (built
  from the all-\<open>None\<close> tuple) is in no book, and every book holds at least one highlight
  and only highlights of its own title; a highlight whose normalized title is the empty
  string is aggregated like any other, into the book of that title; and the books handed
  to the output stage are books of the library with a non-empty title.  The run returns
  nothing else to the caller.
\<close>

theorem C6_untitled_clippings:
  assumes "process file_contents = Inr (library, written)"
  shows "(\<forall>b\<in>set library. highlights b \<noteq> []
            \<and> (\<forall>h\<in>set (highlights b). title h = Some (book_title b)))
       \<and> (\<forall>h\<in>set (parsed_highlights file_contents). \<forall>t. title h = Some t \<longrightarrow>
            (\<exists>b\<in>set library. book_title b = t \<and> h \<in> set (highlights b)))
       \<and> (\<forall>b\<in>set written. b \<in> set library \<and> book_title b \<noteq> [])"
proof -
  let ?hs = "parsed_highlights file_contents"
  obtain T where inv: "library_inv ?hs (T, library)"
    using process_library_inv(1)[OF assms] by blast
  have order: "map book_title library = first_seen (seen_titles ?hs)"
    using inv unfolding library_inv_def fst_conv snd_conv by blast
  have hl: "\<And>b. b \<in> set library \<Longrightarrow>
              highlights b = filter (\<lambda>h. title h = Some (book_title b)) ?hs"
    using inv unfolding library_inv_def fst_conv snd_conv by blast
  have titles: "set (map book_title library) = set (seen_titles ?hs)"
    unfolding order by (rule set_first_seen)
  have one: "\<forall>b\<in>set library. highlights b \<noteq> []
            \<and> (\<forall>h\<in>set (highlights b). title h = Some (book_title b))"
  proof
    fix b assume b: "b \<in> set library"
    then have "book_title b \<in> set (seen_titles ?hs)" using titles by auto
    then obtain h where "h \<in> set ?hs" "title h = Some (book_title b)"
      using seen_titles_mem by blast
    then have "highlights b \<noteq> []" using hl[OF b] by (auto simp: filter_empty_conv)
    moreover have "\<forall>h\<in>set (highlights b). title h = Some (book_title b)"
      using hl[OF b] by simp
    ultimately show "highlights b \<noteq> []
            \<and> (\<forall>h\<in>set (highlights b). title h = Some (book_title b))" by blast
  qed
  have two: "\<forall>h\<in>set ?hs. \<forall>t. title h = Some t \<longrightarrow>
            (\<exists>b\<in>set library. book_title b = t \<and> h \<in> set (highlights b))"
  proof (intro ballI allI impI)
    fix h t assume h: "h \<in> set ?hs" and t: "title h = Some t"
    then have "t \<in> set (seen_titles ?hs)" using seen_titles_mem by blast
    then have "t \<in> set (map book_title library)" using titles by simp
    then obtain b where b: "b \<in> set library" "book_title b = t" by auto
    then have "h \<in> set (highlights b)" using hl[OF b(1)] h t by simp
    then show "\<exists>b\<in>set library. book_title b = t \<and> h \<in> set (highlights b)"
      using b by blast
  qed
  have "written = write_books library []"
    using process_library_inv(2)[OF assms] .
  then have three: "\<forall>b\<in>set written. b \<in> set library \<and> book_title b \<noteq> []"
    using write_books_subset by blast
  show ?thesis using one two three by blast
qed

theorem C6_untitled_clippings_witness:
  "process ''(Anon)\<newline>- Your Note on Location 3 | Added on Monday, March 4, 2019 1:02:03 AM\<newline>\<newline>x\<newline>==========\<newline>Alpha (A)\<newline>- Your Highlight on Location 1 | Added on Monday, March 4, 2019 1:02:04 AM\<newline>\<newline>one\<newline>==========\<newline>''
   = Inr ([\<lparr>book_title = '''', book_author = Some ''Anon'',
            highlights =
              [\<lparr>title = Some '''', author = Some ''Anon'', highlight_type = Some ''Note'',
                main_loc = Some ''Location 3'', date = Some ''04/03/19 01:02:03'',
                content = Some ''x''\<rparr>]\<rparr>,
           \<lparr>book_title = ''Alpha'', book_author = Some ''A'',
            highlights =
              [\<lparr>title = Some ''Alpha'', author = Some ''A'', highlight_type = Some ''Highlight'',
                main_loc = Some ''Location 1'', date = Some ''04/03/19 01:02:04'',
                content = Some ''one''\<rparr>]\<rparr>],
          [\<lparr>book_title = ''Alpha'', book_author = Some ''A'',
            highlights =
              [\<lparr>title = Some ''Alpha'', author = Some ''A'', highlight_type = Some ''Highlight'',
                main_loc = Some ''Location 1'', date = Some ''04/03/19 01:02:04'',
                content = Some ''one''\<rparr>]\<rparr>])
   \<and> book_title \<lparr>book_title = ''Alpha'', book_author = Some ''A'',
            highlights =
              [\<lparr>title = Some ''Alpha'', author = Some ''A'', highlight_type = Some ''Highlight'',
                main_loc = Some ''Location 1'', date = Some ''04/03/19 01:02:04'',
                content = Some ''one''\<rparr>]\<rparr> \<noteq> ''''"
proof -
  let ?f = "''(Anon)\<newline>- Your Note on Location 3 | Added on Monday, March 4, 2019 1:02:03 AM\<newline>\<newline>x\<newline>==========\<newline>Alpha (A)\<newline>- Your Highlight on Location 1 | Added on Monday, March 4, 2019 1:02:04 AM\<newline>\<newline>one\<newline>==========\<newline>''"
  let ?anon = "\<lparr>book_title = '''', book_author = Some ''Anon'',
            highlights =
              [\<lparr>title = Some '''', author = Some ''Anon'', highlight_type = Some ''Note'',
                main_loc = Some ''Location 3'', date = Some ''04/03/19 01:02:03'',
                content = Some ''x''\<rparr>]\<rparr>"
  let ?alpha = "\<lparr>book_title = ''Alpha'', book_author = Some ''A'',
            highlights =
              [\<lparr>title = Some ''Alpha'', author = Some ''A'', highlight_type = Some ''Highlight'',
                main_loc = Some ''Location 1'', date = Some ''04/03/19 01:02:04'',
                content = Some ''one''\<rparr>]\<rparr>"
  have run: "process ?f = Inr ([?anon, ?alpha], [?alpha])" by code_simp
  have "\<forall>b\<in>set [?alpha]. b \<in> set [?anon, ?alpha] \<and> book_title b \<noteq> []"
    using C6_untitled_clippings[OF run] by blast
  then have "book_title ?alpha \<noteq> []" by simp
  then show ?thesis using run by blast
qed

end
